theory Spec2Isabelle
  imports Main
begin

section \<open>Process environment and promises\<close>

text \<open>
  The two deployments (\<^verbatim>\<open>src/api.js\<close>, with the Redis set of refresh tokens, and
  \<^verbatim>\<open>src/unnamed/part_000\<close>, with the password-reset flow) read three signing secrets
  from the process environment.
\<close>

record env =
  ACCESS_TOKEN_SECRET :: string
  REFRESH_TOKEN_SECRET :: string
  RESET_TOKEN_SECRET :: string

text \<open>
  The settled state of a promise. An \<^verbatim>\<open>await\<close> of a rejected promise throws; a handler
  that tests a promise object itself finds an object, and every object is truthy.
\<close>

datatype 'a promise = Fulfilled 'a | Rejected

definition truthy_promise :: "'a promise \<Rightarrow> bool" where
  "truthy_promise p = True"

text \<open>\<^verbatim>\<open>!x\<close> on a string field of the request body: \<^verbatim>\<open>undefined\<close> and \<^verbatim>\<open>""\<close> are falsy.\<close>

definition falsy :: "string option \<Rightarrow> bool" where
  "falsy x = (x = None \<or> x = Some [])"

section \<open>Signed tokens\<close>

text \<open>
  The \<^verbatim>\<open>{id, email}\<close> object of the handlers, and the claim set \<^verbatim>\<open>jwt.sign\<close> makes of
  it: \<^verbatim>\<open>iat\<close> is always added, \<^verbatim>\<open>exp\<close> only with \<^verbatim>\<open>expiresIn\<close>. Times are seconds.
\<close>

record user =
  user_id :: nat
  user_email :: string

record payload = user +
  claim_iat :: nat
  claim_exp :: "nat option"

text \<open>
  A token string is modelled symbolically: either the signature of a claim set under a
  secret, or some other string. The signature is ideal: it verifies under the secret it
  was made with and under no other. The secrets are taken to be configured (non-empty),
  so that \<^verbatim>\<open>jwt.sign\<close> does not throw.
\<close>

datatype jwt = Jwt string payload | NotAJwt string

datatype jwt_error = JsonWebTokenError | TokenExpiredError

definition jwt_sign :: "'a user_scheme \<Rightarrow> string \<Rightarrow> nat option \<Rightarrow> nat \<Rightarrow> jwt" where
  "jwt_sign u secret expiresIn now =
     Jwt secret \<lparr>user_id = user_id u, user_email = user_email u, claim_iat = now,
       claim_exp = (case expiresIn of None \<Rightarrow> None | Some d \<Rightarrow> Some (now + d))\<rparr>"

text \<open>
  \<^verbatim>\<open>jwt.verify\<close>: a missing or malformed token and a signature under another secret are
  a \<^verbatim>\<open>JsonWebTokenError\<close>; then the expiry is checked, the token being expired from the
  second \<^verbatim>\<open>exp\<close> on.
\<close>

fun jwt_verify :: "jwt option \<Rightarrow> string \<Rightarrow> nat \<Rightarrow> jwt_error + payload" where
  "jwt_verify None secret now = Inl JsonWebTokenError"
| "jwt_verify (Some (NotAJwt s)) secret now = Inl JsonWebTokenError"
| "jwt_verify (Some (Jwt signed_with p)) secret now =
     (if signed_with \<noteq> secret then Inl JsonWebTokenError
      else case claim_exp p of
             None \<Rightarrow> Inr p
           | Some e \<Rightarrow> if e \<le> now then Inl TokenExpiredError else Inr p)"

definition generateAccessToken :: "env \<Rightarrow> nat \<Rightarrow> 'a user_scheme \<Rightarrow> jwt" where
  "generateAccessToken ev now u = jwt_sign u (ACCESS_TOKEN_SECRET ev) (Some (24 * 3600)) now"

definition generateRefreshToken :: "env \<Rightarrow> nat \<Rightarrow> 'a user_scheme \<Rightarrow> jwt" where
  "generateRefreshToken ev now u = jwt_sign u (REFRESH_TOKEN_SECRET ev) None now"

definition generateResetToken :: "env \<Rightarrow> nat \<Rightarrow> 'a user_scheme \<Rightarrow> jwt" where
  "generateResetToken ev now u = jwt_sign u (RESET_TOKEN_SECRET ev) (Some 3600) now"

section \<open>Event rows and responses\<close>

text \<open>
  The six columns an event is created and updated with (\<^verbatim>\<open>NULL\<close> is \<open>None\<close>; a
  \<^verbatim>\<open>DATETIME\<close> is a count of milliseconds), and the row with its id and its owner.
\<close>

datatype events_columns = Columns
  (name: "string option") (description: "string option") (location: "string option")
  (from_date: "int option") (to_date: "int option") (contact: "string option")

record events_row =
  events_id :: nat
  events_user_id :: nat
  events_values :: events_columns

datatype body =
    Message string
  | Text string
  | Tokens jwt jwt
  | Registered nat string jwt jwt
  | EventRows "events_row list"
  | EventRow events_row
  | Empty

text \<open>
  What the client gets: a status with a body, or nothing from the handler when it threw
  (an \<^verbatim>\<open>await\<close> of a rejected promise in an \<^verbatim>\<open>async\<close> handler).
\<close>

datatype response = Response nat body | Unanswered

fun status :: "response \<Rightarrow> nat option" where
  "status (Response n b) = Some n"
| "status Unanswered = None"

section \<open>The Request Authenticator\<close>

text \<open>
  The \<^verbatim>\<open>Authorization\<close> header, when present, is given by its words, the pieces
  \<^verbatim>\<open>split(" ")\<close> returns: \<^verbatim>\<open>Bearer <token>\<close> is \<open>[NotAJwt ''Bearer'', token]\<close>. The empty
  string (falsy) is \<open>[NotAJwt '''']\<close> or \<open>[]\<close>.
\<close>

type_synonym header = "jwt list option"

definition falsy_header :: "header \<Rightarrow> bool" where
  "falsy_header h = (h = None \<or> h = Some [] \<or> h = Some [NotAJwt []])"

fun word_at_1 :: "jwt list \<Rightarrow> jwt option" where
  "word_at_1 (w0 # w1 # ws) = Some w1"
| "word_at_1 ws = None"

datatype verdict = Reject response | Next payload

definition verifyToken :: "env \<Rightarrow> nat \<Rightarrow> header \<Rightarrow> verdict" where
  "verifyToken ev now authHeader =
     (case authHeader of
        None \<Rightarrow> Reject (Response 401 (Text ''You are not authorized''))
      | Some ws \<Rightarrow>
          if falsy_header authHeader then Reject (Response 401 (Text ''You are not authorized''))
          else (case jwt_verify (word_at_1 ws) (ACCESS_TOKEN_SECRET ev) now of
                  Inl err \<Rightarrow> Reject (Response 403 (Text ''Invalid token''))
                | Inr u \<Rightarrow> Next u))"

section \<open>The relational store\<close>

text \<open>
  The store is the collaborator behind \<^verbatim>\<open>database.query\<close>: the two tables, whether the
  connection answers (a query on a lost connection rejects), and two facts of the schema
  the handlers rely on: the next \<^verbatim>\<open>AUTO_INCREMENT\<close> id of \<^verbatim>\<open>users\<close>, and whether
  \<^verbatim>\<open>users.email\<close> carries a \<^verbatim>\<open>UNIQUE\<close> key (then a second row with a stored email is
  refused with a duplicate-entry error).
\<close>

record users_row =
  users_id :: nat
  users_email :: string
  users_password :: string
  users_first_name :: string
  users_last_name :: string
  users_phone_number :: string

record database =
  connected :: bool
  email_unique :: bool
  users_auto_increment :: nat
  users :: "users_row list"
  events :: "events_row list"

text \<open>The value of a body field that was found truthy.\<close>

fun value_of :: "string option \<Rightarrow> string" where
  "value_of None = []"
| "value_of (Some s) = s"

section \<open>The Credential Verifier and registration\<close>

text \<open>
  \<^verbatim>\<open>SELECT * FROM users WHERE email = ?\<close>, then \<^verbatim>\<open>rows[0]\<close>; no row, or a stored
  password that is not \<^verbatim>\<open>===\<close> the candidate, gives \<^verbatim>\<open>undefined\<close>.
\<close>

definition findUserBasedOnCredentials :: "database \<Rightarrow> string \<Rightarrow> string \<Rightarrow> user option promise" where
  "findUserBasedOnCredentials db email password =
     (if \<not> connected db then Rejected
      else case filter (\<lambda>r. users_email r = email) (users db) of
             [] \<Rightarrow> Fulfilled None
           | u # rest \<Rightarrow>
               if users_password u \<noteq> password then Fulfilled None
               else Fulfilled (Some \<lparr>user_id = users_id u, user_email = users_email u\<rparr>))"

text \<open>\<^verbatim>\<open>INSERT INTO users (...) VALUES (...)\<close>, resolving to the \<^verbatim>\<open>insertId\<close>.\<close>

definition insert_user ::
  "database \<Rightarrow> string \<Rightarrow> string \<Rightarrow> string \<Rightarrow> string \<Rightarrow> string \<Rightarrow> nat promise \<times> database" where
  "insert_user db email password first_name last_name phone_number =
     (if \<not> connected db then (Rejected, db)
      else if email_unique db \<and> email \<in> set (map users_email (users db)) then (Rejected, db)
      else (Fulfilled (users_auto_increment db),
            db\<lparr>users_auto_increment := Suc (users_auto_increment db),
               users := users db @
                 [\<lparr>users_id = users_auto_increment db, users_email = email,
                   users_password = password, users_first_name = first_name,
                   users_last_name = last_name, users_phone_number = phone_number\<rparr>]\<rparr>))"

record register_body =
  register_email :: "string option"
  register_password :: "string option"
  register_first_name :: "string option"
  register_last_name :: "string option"
  register_phone_number :: "string option"
  register_confirm_password :: "string option"

text \<open>\<^verbatim>\<open>POST /users/register\<close>, the same handler in both deployments.\<close>

definition users_register :: "env \<Rightarrow> nat \<Rightarrow> register_body \<Rightarrow> database \<Rightarrow> response \<times> database" where
  "users_register ev now b db =
     (if falsy (register_email b) \<or> falsy (register_password b) \<or> falsy (register_first_name b)
         \<or> falsy (register_last_name b) \<or> falsy (register_phone_number b)
         \<or> falsy (register_confirm_password b)
      then (Response 400 (Message ''Missing required fields''), db)
      else if register_password b \<noteq> register_confirm_password b
      then (Response 400 (Message ''Passwords do not match''), db)
      else
        let email = value_of (register_email b); password = value_of (register_password b) in
        (case findUserBasedOnCredentials db email password of
          Rejected \<Rightarrow> (Unanswered, db)
        | Fulfilled (Some u) \<Rightarrow> (Response 409 (Message ''User already exists''), db)
        | Fulfilled None \<Rightarrow>
            (case insert_user db email password (value_of (register_first_name b))
                    (value_of (register_last_name b)) (value_of (register_phone_number b)) of
               (Rejected, db') \<Rightarrow> (Unanswered, db')
             | (Fulfilled user_id', db') \<Rightarrow>
                 (Response 200
                    (Registered user_id' email
                       (generateAccessToken ev now \<lparr>user_id = user_id', user_email = email\<rparr>)
                       (generateRefreshToken ev now \<lparr>user_id = user_id', user_email = email\<rparr>)),
                  db'))))"

section \<open>Events\<close>

text \<open>
  The event queries, the same in both deployments. \<^verbatim>\<open>getEvents\<close>, \<^verbatim>\<open>getEventById\<close> and
  \<^verbatim>\<open>removeEvent\<close> carry \<^verbatim>\<open>AND user_id = ${user_id}\<close>; the statement of \<^verbatim>\<open>updateEvent\<close>
  is \<^verbatim>\<open>UPDATE events SET ... WHERE id = ?\<close>.
\<close>

definition getEvents :: "database \<Rightarrow> nat \<Rightarrow> events_row list promise" where
  "getEvents db uid =
     (if \<not> connected db then Rejected
      else Fulfilled (filter (\<lambda>e. events_user_id e = uid) (events db)))"

definition getEventById :: "database \<Rightarrow> nat \<Rightarrow> nat \<Rightarrow> events_row option promise" where
  "getEventById db i uid =
     (if \<not> connected db then Rejected
      else case filter (\<lambda>e. events_id e = i \<and> events_user_id e = uid) (events db) of
             [] \<Rightarrow> Fulfilled None
           | e # rest \<Rightarrow> Fulfilled (Some e))"

definition removeEvent :: "database \<Rightarrow> nat \<Rightarrow> nat \<Rightarrow> bool promise \<times> database" where
  "removeEvent db i uid =
     (if \<not> connected db then (Rejected, db)
      else (Fulfilled True,
            db\<lparr>events := filter (\<lambda>e. \<not> (events_id e = i \<and> events_user_id e = uid)) (events db)\<rparr>))"

definition updateEvent :: "database \<Rightarrow> nat \<Rightarrow> events_columns \<Rightarrow> bool promise \<times> database" where
  "updateEvent db i updatedEvent =
     (if \<not> connected db then (Rejected, db)
      else (Fulfilled True,
            db\<lparr>events := map (\<lambda>e. if events_id e = i then e\<lparr>events_values := updatedEvent\<rparr> else e)
                           (events db)\<rparr>))"

text \<open>
  The routes, behind \<^verbatim>\<open>verifyToken\<close> (and the rate limiter, which only refuses requests
  before they reach the handler and is left out). \<^verbatim>\<open>req.user.id\<close> is the \<^verbatim>\<open>id\<close> claim.
  An array is truthy, so \<^verbatim>\<open>GET /events\<close> always answers with the rows; \<^verbatim>\<open>res.json(undefined)\<close>
  is an empty body with status 200; the \<^verbatim>\<open>true\<close> that \<^verbatim>\<open>removeEvent\<close> and \<^verbatim>\<open>updateEvent\<close>
  resolve to never takes the 404 branch.
\<close>

definition get_events :: "env \<Rightarrow> nat \<Rightarrow> header \<Rightarrow> database \<Rightarrow> response \<times> database" where
  "get_events ev now authHeader db =
     (case verifyToken ev now authHeader of
        Reject r \<Rightarrow> (r, db)
      | Next u \<Rightarrow>
          (case getEvents db (user_id u) of
             Rejected \<Rightarrow> (Unanswered, db)
           | Fulfilled rows \<Rightarrow> (Response 200 (EventRows rows), db)))"

definition get_events_id :: "env \<Rightarrow> nat \<Rightarrow> header \<Rightarrow> nat \<Rightarrow> database \<Rightarrow> response \<times> database" where
  "get_events_id ev now authHeader i db =
     (case verifyToken ev now authHeader of
        Reject r \<Rightarrow> (r, db)
      | Next u \<Rightarrow>
          (case getEventById db i (user_id u) of
             Rejected \<Rightarrow> (Unanswered, db)
           | Fulfilled None \<Rightarrow> (Response 200 Empty, db)
           | Fulfilled (Some e) \<Rightarrow> (Response 200 (EventRow e), db)))"

definition delete_events_id :: "env \<Rightarrow> nat \<Rightarrow> header \<Rightarrow> nat \<Rightarrow> database \<Rightarrow> response \<times> database" where
  "delete_events_id ev now authHeader i db =
     (case verifyToken ev now authHeader of
        Reject r \<Rightarrow> (r, db)
      | Next u \<Rightarrow>
          (case removeEvent db i (user_id u) of
             (Rejected, db') \<Rightarrow> (Unanswered, db')
           | (Fulfilled removedEvent, db') \<Rightarrow>
               if \<not> removedEvent then (Response 404 Empty, db') else (Response 204 Empty, db')))"

definition put_events_id ::
  "env \<Rightarrow> nat \<Rightarrow> header \<Rightarrow> nat \<Rightarrow> events_columns \<Rightarrow> database \<Rightarrow> response \<times> database" where
  "put_events_id ev now authHeader i b db =
     (case verifyToken ev now authHeader of
        Reject r \<Rightarrow> (r, db)
      | Next u \<Rightarrow>
          if from_date b = None \<or> to_date b = None \<or> falsy (name b)
          then (Response 400 (Message ''Missing required fields''), db)
          else (case updateEvent db i b of
                  (Rejected, db') \<Rightarrow> (Unanswered, db')
                | (Fulfilled eventUpdated, db') \<Rightarrow>
                    if \<not> eventUpdated then (Response 404 Empty, db') else (Response 204 Empty, db')))"

section \<open>The date-filtered query\<close>

text \<open>
  Instants are milliseconds since the epoch; a stored \<^verbatim>\<open>DATETIME\<close> is the millisecond
  count of its wall-clock reading. The \<^verbatim>\<open>date\<close> query parameter is given by what
  \<^verbatim>\<open>new Date(date)\<close> makes of it: a string that names an instant (a date-only ISO
  string such as \<^verbatim>\<open>2024-03-15\<close>, read as UTC midnight, or one with \<^verbatim>\<open>Z\<close> or an offset), a
  string read in the server's local time (its wall-clock reading is given), or one that
  gives an invalid date.
\<close>

datatype date_string = UtcForm int | LocalForm int | InvalidDate

text \<open>
  The server's time zone, as the runtime presents it: what \<^verbatim>\<open>getTimezoneOffset()\<close> returns
  for a date at a given instant (whole minutes, UTC minus local time), and the instant as
  which \<^verbatim>\<open>new Date\<close> reads a wall-clock reading in local time. The two are separate
  functions of the zone and need not agree: a local time that a transition skips is read
  with the offset before the transition, while the offset reported at the instant so
  obtained is the one after it; and an offset that is no whole number of minutes is
  reported in whole minutes.
\<close>

record zone =
  getTimezoneOffset :: "int \<Rightarrow> int"
  utc_of_local :: "int \<Rightarrow> int"

definition MILISECONDS_IN_AN_HOUR :: int where
  "MILISECONDS_IN_AN_HOUR = 60 * 60 * 1000"

text \<open>A time value is kept when it is at most 8.64e15 ms from the epoch, else it is \<^verbatim>\<open>NaN\<close>.\<close>

definition TimeClip :: "int \<Rightarrow> int option" where
  "TimeClip t = (if \<bar>t\<bar> \<le> 8640000000000000 then Some t else None)"

fun getTime :: "zone \<Rightarrow> date_string \<Rightarrow> int option" where
  "getTime z (UtcForm t) = TimeClip t"
| "getTime z (LocalForm w) = TimeClip (utc_of_local z w)"
| "getTime z InvalidDate = None"

text \<open>
  \<^verbatim>\<open>DATE(from_date) = ?\<close> with the ISO string of an instant: the store reads the string as
  the \<^verbatim>\<open>DATETIME\<close> with the same reading and compares it with the date at 00:00:00;
  \<^verbatim>\<open>DATE(NULL)\<close> equals nothing.
\<close>

definition milliseconds_in_a_day :: int where
  "milliseconds_in_a_day = 24 * 60 * 60 * 1000"

definition DATE :: "int \<Rightarrow> int" where
  "DATE dt = dt div milliseconds_in_a_day"

definition date_equals :: "int option \<Rightarrow> int \<Rightarrow> bool" where
  "date_equals dt parsedDate =
     (case dt of None \<Rightarrow> False | Some t \<Rightarrow> DATE t * milliseconds_in_a_day = parsedDate)"

text \<open>
  \<^verbatim>\<open>getTimezoneOffset() / 60 * MILISECONDS_IN_AN_HOUR\<close> is computed exactly here; in
  floating point it is exact for every offset that is a multiple of 15 minutes. Both
  \<^verbatim>\<open>new Date(date)\<close> are the same instant, and the offset is the one reported at it. An
  invalid date makes \<^verbatim>\<open>toISOString\<close> throw.
\<close>

definition getEventForCertainDate ::
  "zone \<Rightarrow> database \<Rightarrow> date_string \<Rightarrow> nat \<Rightarrow> events_row list promise" where
  "getEventForCertainDate z db date uid =
     (case getTime z date of
        None \<Rightarrow> Rejected
      | Some t \<Rightarrow>
          (case TimeClip (t - getTimezoneOffset z t * MILISECONDS_IN_AN_HOUR div 60) of
             None \<Rightarrow> Rejected
           | Some parsedDate \<Rightarrow>
               if \<not> connected db then Rejected
               else Fulfilled
                      (filter (\<lambda>e. date_equals (from_date (events_values e)) parsedDate
                                  \<and> events_user_id e = uid) (events db))))"

definition get_events_date ::
  "zone \<Rightarrow> env \<Rightarrow> nat \<Rightarrow> header \<Rightarrow> date_string \<Rightarrow> database \<Rightarrow> response \<times> database" where
  "get_events_date z ev now authHeader date db =
     (case verifyToken ev now authHeader of
        Reject r \<Rightarrow> (r, db)
      | Next u \<Rightarrow>
          (case getEventForCertainDate z db date (user_id u) of
             Rejected \<Rightarrow> (Unanswered, db)
           | Fulfilled rows \<Rightarrow> (Response 200 (EventRows rows), db)))"

section \<open>The password-reset flow (standalone deployment)\<close>

text \<open>\<^verbatim>\<open>!token\<close> on a token field of the body: \<^verbatim>\<open>undefined\<close> and \<^verbatim>\<open>""\<close> are falsy.\<close>

definition falsy_token :: "jwt option \<Rightarrow> bool" where
  "falsy_token t = (t = None \<or> t = Some (NotAJwt []))"

definition isValidResetToken :: "env \<Rightarrow> nat \<Rightarrow> jwt option \<Rightarrow> bool" where
  "isValidResetToken ev now token =
     (case jwt_verify token (RESET_TOKEN_SECRET ev) now of Inl err \<Rightarrow> False | Inr p \<Rightarrow> True)"

definition getUserIdFromResetToken :: "env \<Rightarrow> nat \<Rightarrow> jwt option \<Rightarrow> nat option" where
  "getUserIdFromResetToken ev now token =
     (case jwt_verify token (RESET_TOKEN_SECRET ev) now of Inl err \<Rightarrow> None | Inr p \<Rightarrow> Some (user_id p))"

text \<open>
  \<^verbatim>\<open>UPDATE users SET password = ? WHERE id = ?\<close>, resolving to the result header (here the
  number of rows matched); \<^verbatim>\<open>id = NULL\<close> matches no row. The query is sent when the
  function is called, whether or not the promise is awaited.
\<close>

definition setNewPassword :: "database \<Rightarrow> string \<Rightarrow> nat option \<Rightarrow> nat promise \<times> database" where
  "setNewPassword db password userId =
     (if \<not> connected db then (Rejected, db)
      else (Fulfilled (length (filter (\<lambda>r. Some (users_id r) = userId) (users db))),
            db\<lparr>users := map (\<lambda>r. if Some (users_id r) = userId then r\<lparr>users_password := password\<rparr> else r)
                          (users db)\<rparr>))"

text \<open>\<^verbatim>\<open>POST /verify-reset-token\<close>; \<^verbatim>\<open>res.sendStatus(200)\<close> answers with the body \<^verbatim>\<open>OK\<close>.\<close>

definition verify_reset_token :: "env \<Rightarrow> nat \<Rightarrow> jwt option \<Rightarrow> database \<Rightarrow> response \<times> database" where
  "verify_reset_token ev now resetToken db =
     (if falsy_token resetToken then (Response 400 (Message ''Missing required fields''), db)
      else if \<not> isValidResetToken ev now resetToken
      then (Response 403 (Message ''Invalid token''), db)
      else (Response 200 (Text ''OK''), db))"

text \<open>
  \<^verbatim>\<open>POST /set-new-password\<close>. \<^verbatim>\<open>newPasswordSet\<close> is the promise \<^verbatim>\<open>setNewPassword\<close> returns,
  not awaited, and the handler tests it as it is.
\<close>

definition set_new_password ::
  "env \<Rightarrow> nat \<Rightarrow> jwt option \<Rightarrow> string option \<Rightarrow> database \<Rightarrow> response \<times> database" where
  "set_new_password ev now resetToken password db =
     (if falsy_token resetToken \<or> falsy password
      then (Response 400 (Message ''Missing required fields''), db)
      else
        let validToken = isValidResetToken ev now resetToken;
            userId = getUserIdFromResetToken ev now resetToken
        in if \<not> validToken then (Response 403 (Message ''Invalid token''), db)
           else (case setNewPassword db (value_of password) userId of
                   (newPasswordSet, db') \<Rightarrow>
                     if \<not> truthy_promise newPasswordSet
                     then (Response 403 (Message ''Invalid token''), db')
                     else (Response 200 (Text ''OK''), db')))"

text \<open>The two entry points as requests, and a server that answers a list of them in turn.\<close>

datatype reset_request =
    VerifyResetToken "jwt option"
  | SetNewPassword "jwt option" "string option"

fun serve :: "env \<Rightarrow> nat \<Rightarrow> reset_request \<Rightarrow> database \<Rightarrow> response \<times> database" where
  "serve ev now (VerifyResetToken resetToken) db = verify_reset_token ev now resetToken db"
| "serve ev now (SetNewPassword resetToken password) db = set_new_password ev now resetToken password db"

fun serve_all :: "env \<Rightarrow> (nat \<times> reset_request) list \<Rightarrow> database \<Rightarrow> response list \<times> database" where
  "serve_all ev [] db = ([], db)"
| "serve_all ev ((now, r) # rs) db =
     (case serve ev now r db of
        (res, db') \<Rightarrow> (case serve_all ev rs db' of (ress, db'') \<Rightarrow> (res # ress, db'')))"

section \<open>The Session Registry and token refresh (serverless deployment)\<close>

text \<open>
  The Redis set \<^verbatim>\<open>refreshTokens\<close>. The three helpers are \<^verbatim>\<open>async\<close>: each returns a promise.
  The handlers call \<^verbatim>\<open>sAdd\<close> and \<^verbatim>\<open>sRem\<close> without awaiting them; the commands go out on the
  one connection in the order of the calls, and the set is given here as it is once they
  have landed.
\<close>

definition addRefreshTokenToRedis :: "jwt set \<Rightarrow> jwt \<Rightarrow> unit promise \<times> jwt set" where
  "addRefreshTokenToRedis refreshTokens refreshToken = (Fulfilled (), insert refreshToken refreshTokens)"

definition removeRefreshTokenFromRedis :: "jwt set \<Rightarrow> jwt \<Rightarrow> unit promise \<times> jwt set" where
  "removeRefreshTokenFromRedis refreshTokens refreshToken = (Fulfilled (), refreshTokens - {refreshToken})"

definition refreshTokenExistsInRedis :: "jwt set \<Rightarrow> jwt \<Rightarrow> bool promise" where
  "refreshTokenExistsInRedis refreshTokens refreshToken = Fulfilled (refreshToken \<in> refreshTokens)"

text \<open>
  \<^verbatim>\<open>POST /users/refresh\<close> of \<^verbatim>\<open>src/api.js\<close>. The handler is not \<^verbatim>\<open>async\<close> and tests
  \<^verbatim>\<open>!refreshTokenExistsInRedis(refreshToken)\<close>, the promise itself.
\<close>

definition users_refresh :: "env \<Rightarrow> nat \<Rightarrow> jwt option \<Rightarrow> jwt set \<Rightarrow> response \<times> jwt set" where
  "users_refresh ev now refreshToken refreshTokens =
     (case refreshToken of
        None \<Rightarrow> (Response 401 (Message ''You are not authenticated''), refreshTokens)
      | Some t \<Rightarrow>
          if falsy_token refreshToken
          then (Response 401 (Message ''You are not authenticated''), refreshTokens)
          else if \<not> truthy_promise (refreshTokenExistsInRedis refreshTokens t)
          then (Response 403 (Message ''Invalid refresh token''), refreshTokens)
          else (case jwt_verify refreshToken (REFRESH_TOKEN_SECRET ev) now of
                  Inl err \<Rightarrow> (Response 403 (Message ''Invalid refresh token''), refreshTokens)
                | Inr u \<Rightarrow>
                    let removed = snd (removeRefreshTokenFromRedis refreshTokens t);
                        newAccessToken = generateAccessToken ev now u;
                        newRefreshToken = generateRefreshToken ev now u;
                        added = snd (addRefreshTokenToRedis removed newRefreshToken)
                    in (Response 200 (Tokens newAccessToken newRefreshToken), added)))"

section \<open>Predicates of the specification\<close>

text \<open>An event falls on a calendar day when the date of its \<^verbatim>\<open>from_date\<close> is that day.\<close>

definition falls_on :: "int \<Rightarrow> events_row \<Rightarrow> bool" where
  "falls_on day e = (case from_date (events_values e) of None \<Rightarrow> False | Some dt \<Rightarrow> DATE dt = day)"

text \<open>A request of the reset flow that carries the token (and, to set a password, a non-empty one).\<close>

fun uses_token :: "jwt \<Rightarrow> reset_request \<Rightarrow> bool" where
  "uses_token t (VerifyResetToken resetToken) = (resetToken = Some t)"
| "uses_token t (SetNewPassword resetToken password) = (resetToken = Some t \<and> \<not> falsy password)"

section \<open>Concrete inputs\<close>

definition env0 :: env where
  "env0 = \<lparr>ACCESS_TOKEN_SECRET = ''access-secret'', REFRESH_TOKEN_SECRET = ''refresh-secret'',
            RESET_TOKEN_SECRET = ''reset-secret''\<rparr>"

definition ana :: user where
  "ana = \<lparr>user_id = 1, user_email = ''ana@example.com''\<rparr>"

definition bob :: user where
  "bob = \<lparr>user_id = 2, user_email = ''bob@example.com''\<rparr>"

definition bearer :: "jwt \<Rightarrow> header" where
  "bearer t = Some [NotAJwt ''Bearer'', t]"

definition ana_row :: users_row where
  "ana_row = \<lparr>users_id = 1, users_email = ''ana@example.com'', users_password = ''pw-ana'',
               users_first_name = ''Ana'', users_last_name = ''Pop'', users_phone_number = ''0700''\<rparr>"

definition bob_row :: users_row where
  "bob_row = \<lparr>users_id = 2, users_email = ''bob@example.com'', users_password = ''pw-bob'',
               users_first_name = ''Bob'', users_last_name = ''Ion'', users_phone_number = ''0711''\<rparr>"

text \<open>Two events from 2024-03-15 10:00 to 12:00; 2024-03-15 is day 19797 of the epoch.\<close>

definition bob_event :: events_row where
  "bob_event = \<lparr>events_id = 7, events_user_id = 2,
     events_values = Columns (Some ''Concert'') None (Some ''Cluj'') (Some 1710496800000)
       (Some 1710504000000) None\<rparr>"

definition ana_event :: events_row where
  "ana_event = \<lparr>events_id = 8, events_user_id = 1,
     events_values = Columns (Some ''Dinner'') None None (Some 1710496800000)
       (Some 1710504000000) None\<rparr>"

definition db1 :: database where
  "db1 = \<lparr>connected = True, email_unique = True, users_auto_increment = 3,
           users = [ana_row, bob_row], events = [bob_event, ana_event]\<rparr>"

text \<open>
  A zone with one offset throughout, and Africa/Cairo about its transition of 26 April
  2024: at the instant 1714082400000 local time went from 00:00 (two hours ahead of UTC)
  to 01:00 (three hours ahead), so the readings from 00:00 to 01:00 of that day are
  skipped and read with the earlier offset.
\<close>

definition fixed_zone :: "int \<Rightarrow> zone" where
  "fixed_zone m = \<lparr>getTimezoneOffset = (\<lambda>t. m), utc_of_local = (\<lambda>w. w + m * 60000)\<rparr>"

definition cairo :: zone where
  "cairo = \<lparr>getTimezoneOffset = (\<lambda>t. if t < 1714082400000 then - 120 else - 180),
             utc_of_local = (\<lambda>w. if w < 1714093200000 then w - 7200000 else w - 10800000)\<rparr>"

text \<open>An event of Ana's on 2024-04-26 (day 19839) from 10:00 to 12:00.\<close>

definition april_event :: events_row where
  "april_event = \<lparr>events_id = 9, events_user_id = 1,
     events_values = Columns (Some ''Picnic'') None None (Some 1714125600000)
       (Some 1714132800000) None\<rparr>"

definition db2 :: database where
  "db2 = \<lparr>connected = True, email_unique = True, users_auto_increment = 3,
           users = [ana_row, bob_row], events = [bob_event, ana_event, april_event]\<rparr>"

definition overwrite :: events_columns where
  "overwrite = Columns (Some ''Taken over'') None None (Some 0) (Some 0) None"

definition register_again :: register_body where
  "register_again = \<lparr>register_email = Some ''ana@example.com'', register_password = Some ''other'',
     register_first_name = Some ''Ana'', register_last_name = Some ''Pop'',
     register_phone_number = Some ''0700'', register_confirm_password = Some ''other''\<rparr>"

definition replay :: "(nat \<times> reset_request) list" where
  "replay = [(10, VerifyResetToken (Some (generateResetToken env0 0 bob))),
             (20, SetNewPassword (Some (generateResetToken env0 0 bob)) (Some ''first'')),
             (30, VerifyResetToken (Some (generateResetToken env0 0 bob))),
             (3599, SetNewPassword (Some (generateResetToken env0 0 bob)) (Some ''second''))]"

lemmas concrete_defs = env0_def ana_def bob_def bearer_def ana_row_def bob_row_def bob_event_def
  ana_event_def db1_def overwrite_def fixed_zone_def cairo_def april_event_def db2_def

lemmas token_defs = Let_def generateAccessToken_def generateRefreshToken_def generateResetToken_def
  jwt_sign_def

section \<open>Auxiliary facts\<close>

lemma filter_unique_key:
  "distinct (map f xs) \<Longrightarrow> r \<in> set xs \<Longrightarrow> filter (\<lambda>x. f x = f r) xs = [r]"
proof (induction xs)
  case Nil
  then show ?case by simp
next
  case (Cons a xs)
  show ?case
  proof (cases "a = r")
    case True
    with Cons.prems have "f r \<notin> f ` set xs" by simp
    then have "\<forall>x \<in> set xs. f x \<noteq> f r" by (metis imageI)
    then have "filter (\<lambda>x. f x = f r) xs = []" by (simp add: filter_empty_conv)
    with True show ?thesis by simp
  next
    case False
    with Cons.prems have r: "r \<in> set xs" and d: "distinct (map f xs)" and "f a \<notin> f ` set xs"
      by auto
    then have "f a \<noteq> f r" by (metis imageI)
    with Cons.IH [OF d r] show ?thesis by simp
  qed
qed

text \<open>The three event queries that carry the owner in their \<^verbatim>\<open>WHERE\<close> clause.\<close>

lemma getEvents_only_own:
  "getEvents db uid = Fulfilled rows \<Longrightarrow> e \<in> set rows \<Longrightarrow> events_user_id e = uid"
  by (auto simp: getEvents_def split: if_splits)

lemma getEventById_only_own:
  assumes "getEventById db i uid = Fulfilled (Some e)"
  shows "events_user_id e = uid \<and> events_id e = i \<and> e \<in> set (events db)"
proof -
  from assms obtain rest where
    "filter (\<lambda>e. events_id e = i \<and> events_user_id e = uid) (events db) = e # rest"
    by (auto simp: getEventById_def split: if_splits list.splits)
  then have "e \<in> set (filter (\<lambda>e. events_id e = i \<and> events_user_id e = uid) (events db))"
    by simp
  then show ?thesis by simp
qed

lemma removeEvent_keeps_foreign:
  "events_user_id e \<noteq> uid \<Longrightarrow> e \<in> set (events db) \<Longrightarrow> e \<in> set (events (snd (removeEvent db i uid)))"
  by (simp add: removeEvent_def)

text \<open>Verification succeeds only on a token signed under the verifying secret.\<close>

lemma jwt_verify_Inr: "jwt_verify t secret now = Inr p \<Longrightarrow> t = Some (Jwt secret p)"
  by (induction t secret now rule: jwt_verify.induct) (auto split: if_splits option.splits)

lemma reset_token_verifies:
  "now < issued + 3600 \<Longrightarrow>
   jwt_verify (Some (generateResetToken ev issued u)) (RESET_TOKEN_SECRET ev) now =
     Inr \<lparr>user_id = user_id u, user_email = user_email u, claim_iat = issued,
          claim_exp = Some (issued + 3600)\<rparr>"
  by (simp add: generateResetToken_def jwt_sign_def)

lemma verify_reset_token_pure: "snd (verify_reset_token ev now resetToken db) = db"
  by (simp add: verify_reset_token_def)

lemma verify_reset_token_valid:
  "jwt_verify resetToken (RESET_TOKEN_SECRET ev) now = Inr p \<Longrightarrow>
   verify_reset_token ev now resetToken db = (Response 200 (Text ''OK''), db)"
  by (frule jwt_verify_Inr) (simp add: verify_reset_token_def isValidResetToken_def falsy_token_def)

lemma set_new_password_valid:
  "jwt_verify resetToken (RESET_TOKEN_SECRET ev) now = Inr p \<Longrightarrow> \<not> falsy password \<Longrightarrow>
   set_new_password ev now resetToken password db =
     (Response 200 (Text ''OK''), snd (setNewPassword db (value_of password) (Some (user_id p))))"
  by (frule jwt_verify_Inr)
     (simp add: set_new_password_def isValidResetToken_def getUserIdFromResetToken_def
        falsy_token_def truthy_promise_def Let_def split: prod.splits)

lemma serve_valid:
  assumes "jwt_verify (Some t) (RESET_TOKEN_SECRET ev) now = Inr p" and "uses_token t r"
  shows "fst (serve ev now r db) = Response 200 (Text ''OK'')"
  using assms
  by (cases r) (simp_all add: verify_reset_token_valid set_new_password_valid)

lemma date_equals_midnight:
  "date_equals dt (day * milliseconds_in_a_day) = (case dt of None \<Rightarrow> False | Some t \<Rightarrow> DATE t = day)"
  by (cases dt) (simp_all add: date_equals_def milliseconds_in_a_day_def)

section \<open>Ownership of events\<close>

text \<open>
  C1: no event operation lets a user observe or change a row of another user, the update
  of \<^verbatim>\<open>PUT /events/:id\<close> included. The list, the fetch and the delete keep to the caller's
  rows (the three lemmas above); the update does not: Ana, with her own access token,
  puts new values under the id of Bob's event 7, is answered 204, and Bob's row holds
  her values.
\<close>

theorem put_events_id_overwrites_foreign_row:
  "events_user_id bob_event \<noteq> user_id ana
   \<and> put_events_id env0 100 (bearer (generateAccessToken env0 0 ana)) 7 overwrite db1 =
       (Response 204 Empty, db1\<lparr>events := [bob_event\<lparr>events_values := overwrite\<rparr>, ana_event]\<rparr>)"
  by (simp add: put_events_id_def verifyToken_def falsy_header_def updateEvent_def falsy_def
      concrete_defs token_defs)

section \<open>Refresh and the Session Registry\<close>

text \<open>
  C2: \<^verbatim>\<open>POST /users/refresh\<close> succeeds if and only if the refresh token verifies and is a
  member of the registry; a token that verifies and is not a member is answered 403.
  The handler answers 200 to a token that verifies while the registry is empty.
\<close>

theorem users_refresh_accepts_unregistered_token:
  "generateRefreshToken env0 0 ana \<notin> {}
   \<and> refreshTokenExistsInRedis {} (generateRefreshToken env0 0 ana) = Fulfilled False
   \<and> status (fst (users_refresh env0 5 (Some (generateRefreshToken env0 0 ana)) {})) = Some 200"
  by (simp add: users_refresh_def falsy_token_def truthy_promise_def refreshTokenExistsInRedis_def
      removeRefreshTokenFromRedis_def addRefreshTokenToRedis_def concrete_defs token_defs)

text \<open>
  C3: a refresh with a live token that verifies returns a new pair, registers the new
  refresh token and removes the original, so that a second refresh with the original is
  rejected. The first refresh does return the pair and leaves the registry holding the new
  token only; the second refresh with the original token, no longer a member, is
  answered 200 all the same.
\<close>

theorem users_refresh_accepts_rotated_token:
  "users_refresh env0 5 (Some (generateRefreshToken env0 0 ana)) {generateRefreshToken env0 0 ana} =
     (Response 200 (Tokens (generateAccessToken env0 5 ana) (generateRefreshToken env0 5 ana)),
      {generateRefreshToken env0 5 ana})
   \<and> generateRefreshToken env0 0 ana \<notin> {generateRefreshToken env0 5 ana}
   \<and> status (fst (users_refresh env0 6 (Some (generateRefreshToken env0 0 ana))
        {generateRefreshToken env0 5 ana})) = Some 200"
  by (simp add: users_refresh_def falsy_token_def truthy_promise_def
      removeRefreshTokenFromRedis_def addRefreshTokenToRedis_def concrete_defs token_defs)

section \<open>The date-filtered query and the server's time zone\<close>

text \<open>
  C4, as stated: the query returns the caller's rows whose \<^verbatim>\<open>from_date\<close> falls on the
  requested day, the same in whatever time zone the server runs. It fails: for the date
  \<^verbatim>\<open>2024-03-15\<close> (UTC midnight, 1710460800000) a server at offset 0 returns Ana's event
  of that day and a server four hours behind UTC (offset 240) returns nothing.
\<close>

theorem getEventForCertainDate_depends_on_server_zone:
  "falls_on 19797 ana_event
   \<and> getEventForCertainDate (fixed_zone 0) db1 (UtcForm 1710460800000) 1 = Fulfilled [ana_event]
   \<and> getEventForCertainDate (fixed_zone 240) db1 (UtcForm 1710460800000) 1 = Fulfilled []"
  by (simp add: getEventForCertainDate_def TimeClip_def MILISECONDS_IN_AN_HOUR_def date_equals_def
      falls_on_def DATE_def milliseconds_in_a_day_def concrete_defs)

text \<open>
  A local-time string is no safer. On a server in Africa/Cairo the string
  \<^verbatim>\<open>2024-04-26T00:00:00\<close> names a skipped local time: it is read as the instant
  1714082400000, at which the reported offset is -180, the parameter sent is
  \<^verbatim>\<open>2024-04-26T01:00:00.000Z\<close>, and Ana's event of that day is not returned.
\<close>

lemma getEventForCertainDate_skipped_midnight:
  "falls_on 19839 april_event
   \<and> getTime cairo (LocalForm (19839 * milliseconds_in_a_day)) = Some 1714082400000
   \<and> getTimezoneOffset cairo 1714082400000 = - 180
   \<and> getEventForCertainDate cairo db2 (LocalForm (19839 * milliseconds_in_a_day)) 1 = Fulfilled []"
  by (simp add: getEventForCertainDate_def TimeClip_def MILISECONDS_IN_AN_HOUR_def date_equals_def
      falls_on_def DATE_def milliseconds_in_a_day_def concrete_defs)

text \<open>
  C4, amended: let the requested date be read as the instant \<open>t\<close>, and let \<open>t\<close> less the
  offset the server's zone reports at \<open>t\<close> be 00:00:00.000 of a calendar day (within the
  range of dates). When the store answers, the query returns exactly the caller's rows
  whose \<^verbatim>\<open>from_date\<close> falls on that day. The condition is on the instant and on the
  offset reported at it, by whatever form of string the instant was given; the result
  depends on the server's zone.
\<close>

theorem getEventForCertainDate_local_midnight:
  assumes "connected db"
    and "getTime z date = Some t"
    and "t - getTimezoneOffset z t * 60000 = day * milliseconds_in_a_day"
    and "\<bar>day * milliseconds_in_a_day\<bar> \<le> 8640000000000000"
  shows "getEventForCertainDate z db date uid =
           Fulfilled (filter (\<lambda>e. falls_on day e \<and> events_user_id e = uid) (events db))"
proof -
  have "t - getTimezoneOffset z t * MILISECONDS_IN_AN_HOUR div 60 = t - getTimezoneOffset z t * 60000"
    by (simp add: MILISECONDS_IN_AN_HOUR_def)
  with assms(3) have "t - getTimezoneOffset z t * MILISECONDS_IN_AN_HOUR div 60
      = day * milliseconds_in_a_day"
    by simp
  with assms(1,2,4) show ?thesis
    by (simp add: getEventForCertainDate_def TimeClip_def date_equals_midnight falls_on_def)
qed

text \<open>
  The amended statement at work: on 2024-03-15, a local-time string on a server two hours
  ahead of UTC, an instant on a server four hours behind, and a date-only string on a
  server at UTC; and in Africa/Cairo the local-time string for 2024-04-27, the day after
  the transition, whose midnight exists (no event falls on it).
\<close>

theorem getEventForCertainDate_local_midnight_witness:
  "getEventForCertainDate (fixed_zone (- 120)) db1 (LocalForm (19797 * milliseconds_in_a_day)) 1
       = Fulfilled [ana_event]
   \<and> getEventForCertainDate (fixed_zone 240) db1 (UtcForm (19797 * milliseconds_in_a_day + 240 * 60000)) 1
       = Fulfilled [ana_event]
   \<and> getEventForCertainDate (fixed_zone 0) db1 (UtcForm (19797 * milliseconds_in_a_day)) 2
       = Fulfilled [bob_event]
   \<and> getEventForCertainDate cairo db2 (LocalForm (19840 * milliseconds_in_a_day)) 1 = Fulfilled []"
proof -
  have c: "connected db1" and c2: "connected db2" by (simp_all add: db1_def db2_def)
  have b: "\<bar>19797 * milliseconds_in_a_day\<bar> \<le> 8640000000000000"
    and b2: "\<bar>19840 * milliseconds_in_a_day\<bar> \<le> 8640000000000000"
    by (simp_all add: milliseconds_in_a_day_def)
  have g1: "getTime (fixed_zone (- 120)) (LocalForm (19797 * milliseconds_in_a_day))
             = Some 1710453600000"
    and o1: "1710453600000 - getTimezoneOffset (fixed_zone (- 120)) 1710453600000 * 60000
             = 19797 * milliseconds_in_a_day"
    by (simp_all add: TimeClip_def milliseconds_in_a_day_def fixed_zone_def)
  have g2: "getTime (fixed_zone 240) (UtcForm (19797 * milliseconds_in_a_day + 240 * 60000))
             = Some 1710475200000"
    and o2: "1710475200000 - getTimezoneOffset (fixed_zone 240) 1710475200000 * 60000
             = 19797 * milliseconds_in_a_day"
    by (simp_all add: TimeClip_def milliseconds_in_a_day_def fixed_zone_def)
  have g3: "getTime (fixed_zone 0) (UtcForm (19797 * milliseconds_in_a_day)) = Some 1710460800000"
    and o3: "1710460800000 - getTimezoneOffset (fixed_zone 0) 1710460800000 * 60000
             = 19797 * milliseconds_in_a_day"
    by (simp_all add: TimeClip_def milliseconds_in_a_day_def fixed_zone_def)
  have g4: "getTime cairo (LocalForm (19840 * milliseconds_in_a_day)) = Some 1714165200000"
    and o4: "1714165200000 - getTimezoneOffset cairo 1714165200000 * 60000
             = 19840 * milliseconds_in_a_day"
    by (simp_all add: TimeClip_def milliseconds_in_a_day_def cairo_def)
  show ?thesis
    using getEventForCertainDate_local_midnight [OF c g1 o1 b, of 1]
      getEventForCertainDate_local_midnight [OF c g2 o2 b, of 1]
      getEventForCertainDate_local_midnight [OF c g3 o3 b, of 2]
      getEventForCertainDate_local_midnight [OF c2 g4 o4 b2, of 1]
    by (simp add: falls_on_def DATE_def milliseconds_in_a_day_def db1_def db2_def bob_event_def
        ana_event_def april_event_def)
qed

section \<open>The Request Authenticator's contract\<close>

text \<open>
  C5: the authenticator answers 401 when the \<^verbatim>\<open>Authorization\<close> header is absent, 403
  when the presented token (the second word of the header) is no signed token, is signed
  under another secret than the access secret, or is expired, and otherwise hands the
  token's claims, with \<^verbatim>\<open>id\<close> and \<^verbatim>\<open>email\<close>, to the handler. A header of one word
  presents no token: 401 when it is the empty string, else 403.
\<close>

theorem verifyToken_contract:
  "verifyToken ev now None = Reject (Response 401 (Text ''You are not authorized''))
   \<and> verifyToken ev now (Some [w]) =
       Reject (Response (if w = NotAJwt [] then 401 else 403)
                 (Text (if w = NotAJwt [] then ''You are not authorized'' else ''Invalid token'')))
   \<and> verifyToken ev now (Some (scheme # NotAJwt s # rest)) = Reject (Response 403 (Text ''Invalid token''))
   \<and> (signed_with \<noteq> ACCESS_TOKEN_SECRET ev \<longrightarrow>
        verifyToken ev now (Some (scheme # Jwt signed_with p # rest))
          = Reject (Response 403 (Text ''Invalid token'')))
   \<and> (claim_exp p = Some e \<and> e \<le> now \<longrightarrow>
        verifyToken ev now (Some (scheme # Jwt signed_with p # rest))
          = Reject (Response 403 (Text ''Invalid token'')))
   \<and> (signed_with = ACCESS_TOKEN_SECRET ev
        \<and> (claim_exp p = None \<or> (\<exists>e'. claim_exp p = Some e' \<and> now < e')) \<longrightarrow>
        verifyToken ev now (Some (scheme # Jwt signed_with p # rest)) = Next p)"
  by (auto simp add: verifyToken_def falsy_header_def)

text \<open>
  A forged token, Ana's access token at its 24th hour's end, and the same token one
  second earlier.
\<close>

theorem verifyToken_contract_witness:
  "verifyToken env0 100 (bearer (Jwt ''forged''
       \<lparr>user_id = 1, user_email = ''ana@example.com'', claim_iat = 0, claim_exp = Some 86400\<rparr>))
     = Reject (Response 403 (Text ''Invalid token''))
   \<and> verifyToken env0 86400 (bearer (generateAccessToken env0 0 ana))
     = Reject (Response 403 (Text ''Invalid token''))
   \<and> verifyToken env0 86399 (bearer (generateAccessToken env0 0 ana))
     = Next \<lparr>user_id = 1, user_email = ''ana@example.com'', claim_iat = 0, claim_exp = Some 86400\<rparr>"
  using
    verifyToken_contract [of env0 100 "NotAJwt []" "NotAJwt ''Bearer''" "[]" "[]" "''forged''"
      "\<lparr>user_id = 1, user_email = ''ana@example.com'', claim_iat = 0, claim_exp = Some 86400\<rparr>" 86400]
    verifyToken_contract [of env0 86400 "NotAJwt []" "NotAJwt ''Bearer''" "[]" "[]" "''access-secret''"
      "\<lparr>user_id = 1, user_email = ''ana@example.com'', claim_iat = 0, claim_exp = Some 86400\<rparr>" 86400]
    verifyToken_contract [of env0 86399 "NotAJwt []" "NotAJwt ''Bearer''" "[]" "[]" "''access-secret''"
      "\<lparr>user_id = 1, user_email = ''ana@example.com'', claim_iat = 0, claim_exp = Some 86400\<rparr>" 86400]
  by (simp add: concrete_defs token_defs)

section \<open>The Credential Verifier\<close>

text \<open>
  C6: the Credential Verifier returns \<^verbatim>\<open>{id, email}\<close> exactly when a row with the email
  exists and its stored password equals the candidate, and no-match (not an error)
  otherwise. Emails are unique, as the data model has them, and the store answers.
\<close>

theorem findUserBasedOnCredentials_exact:
  assumes "connected db" and "distinct (map users_email (users db))"
  shows "(\<forall>r \<in> set (users db). users_email r = email \<and> users_password r = password \<longrightarrow>
            findUserBasedOnCredentials db email password =
              Fulfilled (Some \<lparr>user_id = users_id r, user_email = email\<rparr>))
       \<and> ((\<forall>r \<in> set (users db). users_email r = email \<longrightarrow> users_password r \<noteq> password) \<longrightarrow>
            findUserBasedOnCredentials db email password = Fulfilled None)"
proof (intro conjI ballI impI)
  fix r
  assume r: "r \<in> set (users db)" and m: "users_email r = email \<and> users_password r = password"
  from filter_unique_key [OF assms(2) r] m
  have "filter (\<lambda>x. users_email x = email) (users db) = [r]" by simp
  with assms(1) m
  show "findUserBasedOnCredentials db email password =
          Fulfilled (Some \<lparr>user_id = users_id r, user_email = email\<rparr>)"
    by (simp add: findUserBasedOnCredentials_def)
next
  assume no: "\<forall>r \<in> set (users db). users_email r = email \<longrightarrow> users_password r \<noteq> password"
  show "findUserBasedOnCredentials db email password = Fulfilled None"
  proof (cases "filter (\<lambda>x. users_email x = email) (users db)")
    case Nil
    with assms(1) show ?thesis by (simp add: findUserBasedOnCredentials_def)
  next
    case (Cons u rest)
    then have "u \<in> set (filter (\<lambda>x. users_email x = email) (users db))" by simp
    then have "u \<in> set (users db)" and "users_email u = email" by auto
    with no have "users_password u \<noteq> password" by blast
    with assms(1) Cons show ?thesis by (simp add: findUserBasedOnCredentials_def)
  qed
qed

text \<open>Bob's credentials, Bob's email with another password, and an email that is not stored.\<close>

theorem findUserBasedOnCredentials_exact_witness:
  "findUserBasedOnCredentials db1 ''bob@example.com'' ''pw-bob'' =
     Fulfilled (Some \<lparr>user_id = 2, user_email = ''bob@example.com''\<rparr>)
   \<and> findUserBasedOnCredentials db1 ''bob@example.com'' ''pw-ana'' = Fulfilled None
   \<and> findUserBasedOnCredentials db1 ''eve@example.com'' ''pw-bob'' = Fulfilled None"
proof -
  have c: "connected db1" and d: "distinct (map users_email (users db1))"
    by (simp_all add: concrete_defs)
  have "findUserBasedOnCredentials db1 ''bob@example.com'' ''pw-bob'' =
     Fulfilled (Some \<lparr>user_id = 2, user_email = ''bob@example.com''\<rparr>)"
    using findUserBasedOnCredentials_exact [OF c d, of "''bob@example.com''" "''pw-bob''"]
    by (simp add: concrete_defs)
  moreover have "findUserBasedOnCredentials db1 ''bob@example.com'' ''pw-ana'' = Fulfilled None"
    using findUserBasedOnCredentials_exact [OF c d, of "''bob@example.com''" "''pw-ana''"]
    by (simp add: concrete_defs)
  moreover have "findUserBasedOnCredentials db1 ''eve@example.com'' ''pw-bob'' = Fulfilled None"
    using findUserBasedOnCredentials_exact [OF c d, of "''eve@example.com''" "''pw-bob''"]
    by (simp add: concrete_defs)
  ultimately show ?thesis by simp
qed

section \<open>Registration with a stored email\<close>

text \<open>
  C7: a registration with all fields and matching passwords is answered 409 whenever a
  row with the email exists, and inserts only when none does. The handler looks the
  email up together with the password: with Ana's stored email and another password it
  goes on to the insert. Where \<^verbatim>\<open>users.email\<close> is unique the insert is refused and the
  handler answers nothing; where it is not, a second row with the email is stored and
  the answer is 200.
\<close>

theorem users_register_existing_email_not_409:
  "users_email ana_row = ''ana@example.com''
   \<and> fst (users_register env0 100 register_again db1) = Unanswered
   \<and> snd (users_register env0 100 register_again db1) = db1
   \<and> status (fst (users_register env0 100 register_again (db1\<lparr>email_unique := False\<rparr>))) = Some 200
   \<and> map users_email (users (snd (users_register env0 100 register_again (db1\<lparr>email_unique := False\<rparr>))))
       = [''ana@example.com'', ''bob@example.com'', ''ana@example.com'']"
  by (simp add: users_register_def findUserBasedOnCredentials_def insert_user_def falsy_def
      register_again_def concrete_defs token_defs)

section \<open>Reset tokens\<close>

text \<open>
  C8: no operation consumes a reset token. \<^verbatim>\<open>verify-reset-token\<close> leaves the store as it
  was; \<^verbatim>\<open>set-new-password\<close> with the token and a non-empty password changes the store by
  the password update for the token's user and nothing else; and every request of a list
  of such requests, each made before the token's hour is over, is answered 200.
\<close>

theorem reset_token_never_consumed:
  assumes "list_all (\<lambda>(now, r). now < issued + 3600 \<and> uses_token (generateResetToken ev issued u) r) reqs"
  shows "list_all (\<lambda>res. res = Response 200 (Text ''OK'')) (fst (serve_all ev reqs db))
         \<and> length (fst (serve_all ev reqs db)) = length reqs
         \<and> snd (verify_reset_token ev now resetToken db) = db
         \<and> (now < issued + 3600 \<and> \<not> falsy password \<longrightarrow>
              snd (set_new_password ev now (Some (generateResetToken ev issued u)) password db) =
                snd (setNewPassword db (value_of password) (Some (user_id u))))"
  using assms
proof (induction reqs arbitrary: db)
  case Nil
  then show ?case
    by (auto simp: verify_reset_token_pure set_new_password_valid [OF reset_token_verifies])
next
  case (Cons a reqs)
  obtain t r where a: "a = (t, r)" by (cases a)
  from Cons.prems a have t: "t < issued + 3600" and r: "uses_token (generateResetToken ev issued u) r"
    and rest: "list_all (\<lambda>(now, r). now < issued + 3600 \<and> uses_token (generateResetToken ev issued u) r) reqs"
    by simp_all
  from serve_valid [OF reset_token_verifies [OF t] r]
  have ok: "fst (serve ev t r db) = Response 200 (Text ''OK'')" .
  obtain res db' where s: "serve ev t r db = (res, db')" by (cases "serve ev t r db")
  obtain ress db'' where ss: "serve_all ev reqs db' = (ress, db'')" by (cases "serve_all ev reqs db'")
  from Cons.IH [OF rest, of db'] ok a s ss
  show ?case
    by (auto simp: verify_reset_token_pure set_new_password_valid [OF reset_token_verifies])
qed

text \<open>
  Bob's reset token, issued at 0, verified and used to set a password twice each, the last
  time in the last second of its hour.
\<close>

theorem reset_token_never_consumed_witness:
  "fst (serve_all env0 replay db1) =
     [Response 200 (Text ''OK''), Response 200 (Text ''OK''), Response 200 (Text ''OK''),
      Response 200 (Text ''OK'')]
   \<and> snd (set_new_password env0 20 (Some (generateResetToken env0 0 bob)) (Some ''first'') db1) =
       db1\<lparr>users := [ana_row, bob_row\<lparr>users_password := ''first''\<rparr>]\<rparr>"
proof -
  have h: "list_all (\<lambda>(now, r). now < 0 + 3600 \<and> uses_token (generateResetToken env0 0 bob) r) replay"
    by (simp add: replay_def falsy_def)
  note inst = reset_token_never_consumed [OF h, of db1 20 None "Some ''first''"]
  have "length (fst (serve_all env0 replay db1)) = 4"
    using inst by (simp add: replay_def)
  then obtain a b c d where l: "fst (serve_all env0 replay db1) = [a, b, c, d]"
    by (auto simp: length_Suc_conv numeral_eq_Suc)
  with inst have "fst (serve_all env0 replay db1) =
     [Response 200 (Text ''OK''), Response 200 (Text ''OK''), Response 200 (Text ''OK''),
      Response 200 (Text ''OK'')]" by simp
  moreover have "snd (set_new_password env0 20 (Some (generateResetToken env0 0 bob)) (Some ''first'') db1) =
       db1\<lparr>users := [ana_row, bob_row\<lparr>users_password := ''first''\<rparr>]\<rparr>"
    using inst by (simp add: falsy_def setNewPassword_def concrete_defs)
  ultimately show ?thesis by simp
qed

section \<open>One secret for each kind of token\<close>

text \<open>
  C9: when the three secrets are pairwise distinct, a token of one kind fails under the
  secret of another. A refresh or a reset token as Bearer token is answered 403 by the
  authenticator; an access or a refresh token is invalid in the reset flow (both entry
  points answer 403 and the store is unchanged); an access or a reset token is answered
  403 by the refresh handler.
\<close>

theorem token_kinds_do_not_mix:
  assumes "ACCESS_TOKEN_SECRET ev \<noteq> REFRESH_TOKEN_SECRET ev"
    and "ACCESS_TOKEN_SECRET ev \<noteq> RESET_TOKEN_SECRET ev"
    and "REFRESH_TOKEN_SECRET ev \<noteq> RESET_TOKEN_SECRET ev"
  shows "verifyToken ev now (Some [scheme, generateRefreshToken ev issued u])
           = Reject (Response 403 (Text ''Invalid token''))
       \<and> verifyToken ev now (Some [scheme, generateResetToken ev issued u])
           = Reject (Response 403 (Text ''Invalid token''))
       \<and> \<not> isValidResetToken ev now (Some (generateAccessToken ev issued u))
       \<and> \<not> isValidResetToken ev now (Some (generateRefreshToken ev issued u))
       \<and> getUserIdFromResetToken ev now (Some (generateAccessToken ev issued u)) = None
       \<and> verify_reset_token ev now (Some (generateAccessToken ev issued u)) db
           = (Response 403 (Message ''Invalid token''), db)
       \<and> set_new_password ev now (Some (generateAccessToken ev issued u)) (Some (c # cs)) db
           = (Response 403 (Message ''Invalid token''), db)
       \<and> users_refresh ev now (Some (generateAccessToken ev issued u)) live
           = (Response 403 (Message ''Invalid refresh token''), live)
       \<and> users_refresh ev now (Some (generateResetToken ev issued u)) live
           = (Response 403 (Message ''Invalid refresh token''), live)"
  using assms
  by (simp add: verifyToken_def falsy_header_def isValidResetToken_def getUserIdFromResetToken_def
      verify_reset_token_def set_new_password_def users_refresh_def falsy_token_def falsy_def
      truthy_promise_def token_defs)

theorem token_kinds_do_not_mix_witness:
  "verifyToken env0 10 (bearer (generateRefreshToken env0 0 ana))
           = Reject (Response 403 (Text ''Invalid token''))
   \<and> verifyToken env0 10 (bearer (generateResetToken env0 0 ana))
           = Reject (Response 403 (Text ''Invalid token''))
   \<and> \<not> isValidResetToken env0 10 (Some (generateAccessToken env0 0 ana))
   \<and> users_refresh env0 10 (Some (generateAccessToken env0 0 ana)) {}
           = (Response 403 (Message ''Invalid refresh token''), {})"
proof -
  have 1: "ACCESS_TOKEN_SECRET env0 \<noteq> REFRESH_TOKEN_SECRET env0"
    and 2: "ACCESS_TOKEN_SECRET env0 \<noteq> RESET_TOKEN_SECRET env0"
    and 3: "REFRESH_TOKEN_SECRET env0 \<noteq> RESET_TOKEN_SECRET env0"
    by (simp_all add: env0_def)
  show ?thesis
    using token_kinds_do_not_mix [OF 1 2 3, of 10 "NotAJwt ''Bearer''" 0 ana]
    by (simp add: bearer_def)
qed

section \<open>The answer of set-new-password\<close>

text \<open>
  C10: a \<^verbatim>\<open>POST /set-new-password\<close> with a non-empty password and a reset token that
  verifies is answered 200 whatever becomes of the password update, for every state of
  the store: the handler tests the promise, which is truthy, and the second 403 branch is
  never taken.
\<close>

theorem set_new_password_answers_200:
  assumes "\<not> falsy password"
    and "jwt_verify resetToken (RESET_TOKEN_SECRET ev) now = Inr p"
  shows "fst (set_new_password ev now resetToken password db) = Response 200 (Text ''OK'')"
  using set_new_password_valid [OF assms(2) assms(1)] by simp

text \<open>
  The update rejected by a store that does not answer, and the update of a user id that
  matches no row: both requests are answered 200.
\<close>

theorem set_new_password_answers_200_witness:
  "fst (setNewPassword (db1\<lparr>connected := False\<rparr>) ''new'' (Some 2)) = Rejected
   \<and> fst (set_new_password env0 10 (Some (generateResetToken env0 0 bob)) (Some ''new'')
        (db1\<lparr>connected := False\<rparr>)) = Response 200 (Text ''OK'')
   \<and> fst (setNewPassword db1 ''new'' (Some 9)) = Fulfilled 0
   \<and> fst (set_new_password env0 10
        (Some (generateResetToken env0 0 \<lparr>user_id = 9, user_email = ''gone@example.com''\<rparr>))
        (Some ''new'') db1) = Response 200 (Text ''OK'')"
proof -
  have f: "\<not> falsy (Some ''new'')" by (simp add: falsy_def)
  have v: "jwt_verify (Some (generateResetToken env0 0 bob)) (RESET_TOKEN_SECRET env0) 10 =
     Inr \<lparr>user_id = 2, user_email = ''bob@example.com'', claim_iat = 0, claim_exp = Some 3600\<rparr>"
    by (simp add: concrete_defs token_defs)
  have w: "jwt_verify (Some (generateResetToken env0 0 \<lparr>user_id = 9, user_email = ''gone@example.com''\<rparr>))
       (RESET_TOKEN_SECRET env0) 10 =
     Inr \<lparr>user_id = 9, user_email = ''gone@example.com'', claim_iat = 0, claim_exp = Some 3600\<rparr>"
    by (simp add: concrete_defs token_defs)
  show ?thesis
    using set_new_password_answers_200 [OF f v, of "db1\<lparr>connected := False\<rparr>"]
      set_new_password_answers_200 [OF f w, of db1]
    by (simp add: setNewPassword_def concrete_defs)
qed

end
